theory Spec2Isabelle
  imports Main
begin

section \<open>The pipeline demo (src/index.js)\<close>

text \<open>
  The module keeps two counter objects, \<^verbatim>\<open>testResults.original\<close> and
  \<^verbatim>\<open>testResults.patched\<close>, for the whole life of the process. The two request
  handlers update them, schedule a timer, and return a result object. Everything
  that runs later (the timer callbacks, the callback handed to
  \<^verbatim>\<open>Stream.pipeline\<close>) is a separate transformer of the same state.

  Counters are JavaScript numbers; they are modelled as unbounded integers, which
  agrees with the program as long as fewer than \<open>2 ^ 53\<close> requests are served.
  Console output is kept as a list of tagged lines, one constructor per
  \<^verbatim>\<open>console.log\<close> call of the source, with the interpolated counter values as
  arguments. The chunk generator inside \<^verbatim>\<open>createMockFetchResponse\<close> touches
  none of the counters and is left out.
\<close>

record counters =
  success :: bool
  error :: "string option"
  activeConnections :: int
  streamsCreated :: int
  activeStreams :: int

datatype line =
    OrigTesting
  | OrigInitial int int int
  | OrigDisconnected
  | OrigAfterDisconnect int int
  | FixedTesting
  | FixedInitial int int int
  | FixedErrorAbort
  | FixedAfterCleanup int int
  | FixedCleanedUp
  | FixedDisconnected

text \<open>The callbacks given to \<^verbatim>\<open>setTimeout\<close>; the second one closes over the
  \<^verbatim>\<open>mockRes\<close> of its own invocation, identified by the number of its pipeline.\<close>

datatype timer = OriginalDisconnect | FixedDisconnect nat

record demo =
  original :: counters
  patched :: counters
  out :: "line list"
  timers :: "(nat \<times> timer) list"
  pipelines :: "nat list"
  nextPipeline :: nat

record result =
  res_success :: bool
  res_error :: "string option"
  res_activeConnections :: int
  res_activeStreams :: int
  res_streamsCreated :: int

definition testResults :: demo where
  "testResults =
     \<lparr>original = \<lparr>success = False, error = None, activeConnections = 0,
                   streamsCreated = 0, activeStreams = 0\<rparr>,
      patched = \<lparr>success = False, error = None, activeConnections = 0,
                  streamsCreated = 0, activeStreams = 0\<rparr>,
      out = [], timers = [], pipelines = [], nextPipeline = 0\<rparr>"

definition say :: "line \<Rightarrow> demo \<Rightarrow> demo" where
  "say l st = st\<lparr>out := out st @ [l]\<rparr>"

definition setTimeout :: "timer \<Rightarrow> nat \<Rightarrow> demo \<Rightarrow> demo" where
  "setTimeout t ms st = st\<lparr>timers := timers st @ [(ms, t)]\<rparr>"

definition simulateOriginalBehavior :: "demo \<Rightarrow> result \<times> demo" where
  "simulateOriginalBehavior st0 =
     (let st1 = say OrigTesting st0;
          st2 = st1\<lparr>original := (original st1)
                  \<lparr>streamsCreated := streamsCreated (original st1) + 1\<rparr>\<rparr>;
          st3 = st2\<lparr>original := (original st2)
                  \<lparr>activeConnections := activeConnections (original st2) + 1\<rparr>\<rparr>;
          st4 = st3\<lparr>original := (original st3)
                  \<lparr>activeStreams := activeStreams (original st3) + 1\<rparr>\<rparr>;
          st5 = setTimeout OriginalDisconnect 2000 st4;
          st6 = say (OrigInitial (activeConnections (original st5))
                       (activeStreams (original st5))
                       (streamsCreated (original st5))) st5
      in (\<lparr>res_success = False,
           res_error = Some ''Stream continues after client disconnect with .pipe(), causing memory leak'',
           res_activeConnections = activeConnections (original st6),
           res_activeStreams = activeStreams (original st6),
           res_streamsCreated = streamsCreated (original st6)\<rparr>, st6))"

text \<open>The timer callback of \<^verbatim>\<open>simulateOriginalBehavior\<close>: the connection is
  counted down, the stream is not.\<close>

definition originalDisconnect :: "demo \<Rightarrow> demo" where
  "originalDisconnect st0 =
     (let st1 = say OrigDisconnected st0;
          st2 = st1\<lparr>original := (original st1)
                  \<lparr>activeConnections := activeConnections (original st1) - 1\<rparr>\<rparr>
      in say (OrigAfterDisconnect (activeConnections (original st2))
                (activeStreams (original st2))) st2)"

text \<open>
  \<^verbatim>\<open>Stream.pipeline(source, sink, callback)\<close> belongs to Node, not to this
  repository. Its documented contract is what the model takes from it: the
  callback runs once, when the pipeline ends, with no error after the source's
  end-of-data and with an error both when the source fails and when the sink is
  closed early (\<^verbatim>\<open>ERR_STREAM_PREMATURE_CLOSE\<close>).
\<close>

datatype outcome = EndOfData | SourceError | SinkAbort

datatype pipe_error = SourceFailed | PrematureClose

fun errOf :: "outcome \<Rightarrow> pipe_error option" where
  "errOf EndOfData = None"
| "errOf SourceError = Some SourceFailed"
| "errOf SinkAbort = Some PrematureClose"

text \<open>The callback of lines 112 to 125.\<close>

definition pipelineCallback :: "pipe_error option \<Rightarrow> demo \<Rightarrow> demo" where
  "pipelineCallback err st0 =
     (let st1 = (if err \<noteq> None then say FixedErrorAbort st0 else st0);
          st2 = st1\<lparr>patched := (patched st1)
                  \<lparr>activeConnections := activeConnections (patched st1) - 1\<rparr>\<rparr>;
          st3 = st2\<lparr>patched := (patched st2)
                  \<lparr>activeStreams := activeStreams (patched st2) - 1\<rparr>\<rparr>;
          st4 = say (FixedAfterCleanup (activeConnections (patched st3))
                       (activeStreams (patched st3))) st3
      in say FixedCleanedUp st4)"

definition pipeline :: "demo \<Rightarrow> nat \<times> demo" where
  "pipeline st =
     (nextPipeline st,
      st\<lparr>pipelines := pipelines st @ [nextPipeline st],
         nextPipeline := Suc (nextPipeline st)\<rparr>)"

definition finishPipeline :: "nat \<Rightarrow> outcome \<Rightarrow> demo \<Rightarrow> demo" where
  "finishPipeline p oc st =
     (if p \<in> set (pipelines st)
      then pipelineCallback (errOf oc) (st\<lparr>pipelines := removeAll p (pipelines st)\<rparr>)
      else st)"

definition simulateFixedBehavior :: "demo \<Rightarrow> result \<times> demo" where
  "simulateFixedBehavior st0 =
     (let st1 = say FixedTesting st0;
          st2 = st1\<lparr>patched := (patched st1)
                  \<lparr>streamsCreated := streamsCreated (patched st1) + 1\<rparr>\<rparr>;
          st3 = st2\<lparr>patched := (patched st2)
                  \<lparr>activeConnections := activeConnections (patched st2) + 1\<rparr>\<rparr>;
          st4 = st3\<lparr>patched := (patched st3)
                  \<lparr>activeStreams := activeStreams (patched st3) + 1\<rparr>\<rparr>;
          (p, st5) = pipeline st4;
          st6 = setTimeout (FixedDisconnect p) 2000 st5;
          st7 = say (FixedInitial (activeConnections (patched st6))
                       (activeStreams (patched st6))
                       (streamsCreated (patched st6))) st6
      in (\<lparr>res_success = True,
           res_error = None,
           res_activeConnections = activeConnections (patched st7),
           res_activeStreams = activeStreams (patched st7),
           res_streamsCreated = streamsCreated (patched st7)\<rparr>, st7))"

text \<open>The timer callback of \<^verbatim>\<open>simulateFixedBehavior\<close>: \<^verbatim>\<open>mockRes.destroy()\<close>
  closes the sink, which ends a pipeline that is still running.\<close>

definition fixedDisconnect :: "nat \<Rightarrow> demo \<Rightarrow> demo" where
  "fixedDisconnect p st = finishPipeline p SinkAbort (say FixedDisconnected st)"

text \<open>
  What can happen to the module state, one event at a time: a request to either
  route, a pending timer firing (it fires once and leaves the timer list), and a
  pipeline ending because its source is exhausted or fails. Time itself is not
  modelled, so any order of events is allowed; the real schedules are among them.
\<close>

datatype op = CallOriginal | CallFixed | Fire nat timer | SourceEnds nat | SourceFails nat

fun runTimer :: "timer \<Rightarrow> demo \<Rightarrow> demo" where
  "runTimer OriginalDisconnect st = originalDisconnect st"
| "runTimer (FixedDisconnect p) st = fixedDisconnect p st"

fun step :: "op \<Rightarrow> demo \<Rightarrow> demo" where
  "step CallOriginal st = snd (simulateOriginalBehavior st)"
| "step CallFixed st = snd (simulateFixedBehavior st)"
| "step (Fire ms t) st =
     (if (ms, t) \<in> set (timers st)
      then runTimer t (st\<lparr>timers := remove1 (ms, t) (timers st)\<rparr>)
      else st)"
| "step (SourceEnds p) st = finishPipeline p EndOfData st"
| "step (SourceFails p) st = finishPipeline p SourceError st"

definition exec :: "op list \<Rightarrow> demo \<Rightarrow> demo" where
  "exec ops st = fold step ops st"

text \<open>The number of times the error branch of the pipeline callback has run: the
  only place where the callback tells anyone that a pipeline ended with an error.\<close>

definition reportCount :: "demo \<Rightarrow> nat" where
  "reportCount st = count_list (out st) FixedErrorAbort"

section \<open>The stream replacement demo (src/unnamed/part_001)\<close>

text \<open>
  The second demo replaces one failing stream by another, once without and once
  with the cleanup of the replaced stream. Streams are Node objects compared by
  reference, so they live in a heap indexed by a number that stands for the
  reference; \<^verbatim>\<open>new Readable\<close> takes the next free index. What the model takes
  from Node, which is not part of this repository, is the documented behaviour of
  the calls the demo makes:
  \<^item> \<^verbatim>\<open>on\<close> and \<^verbatim>\<open>once\<close> append a listener; a \<^verbatim>\<open>once\<close> listener is removed
    when its event is emitted;
  \<^item> \<^verbatim>\<open>emit('error', e)\<close> throws \<open>e\<close> when the emitter has no \<^verbatim>\<open>error\<close>
    listener, and otherwise calls the listeners in order;
  \<^item> \<^verbatim>\<open>destroy(stream)\<close> of the npm package calls \<^verbatim>\<open>stream.destroy()\<close>, which
    does nothing on a destroyed stream and otherwise marks it destroyed and emits
    \<^verbatim>\<open>close\<close> on the next tick;
  \<^item> an exception thrown by a timer callback goes to the listeners of the
    process event \<^verbatim>\<open>uncaughtException\<close>, and ends the process when there is none.

  The field \<open>calls\<close> is a history variable: it records, in order, the listener
  attachments and the destroy calls made on streams.
\<close>

record tally =
  unhandledErrors :: int
  streamsDestroyed :: int
  testComplete :: bool

datatype event = EvError | EvClose

text \<open>The listener functions of the source: the two \<^verbatim>\<open>close\<close> trackers (with the
  stream number they print) and the error handler added before \<^verbatim>\<open>destroy\<close>.\<close>

datatype handler = TrackBuggy nat | TrackFixed nat | CaughtSafely

record stream =
  handlers :: "event \<Rightarrow> (handler \<times> bool) list"
  destroyed :: bool

datatype body = Null | Text string | StreamRef nat

datatype task =
    EmitError nat string
  | EmitClose nat
  | RemoveUncaught nat
  | ResolveBuggy
  | ResolveFixed

datatype remark =
    BuggyTesting
  | BuggyDestroyed nat
  | BuggySet1
  | BuggySet2
  | BuggyUnhandled string
  | FixedTestingR
  | FixedDestroyed nat
  | FixedSet1
  | FixedCleaning
  | FixedCaught
  | FixedSet2

datatype call = Attach nat event | Destroy nat

record verdict =
  v_unhandledErrors :: int
  v_streamsDestroyed :: int
  v_success :: bool
  v_message :: string

record proc =
  buggy :: tally
  fixed :: tally
  heap :: "nat \<Rightarrow> stream"
  nextStream :: nat
  tickQueue :: "task list"
  timeouts :: "(nat \<times> task) list"
  uncaught :: "nat list"
  nextClosure :: nat
  crashed :: bool
  printed :: "remark list"
  calls :: "call list"
  settled :: "verdict list"

definition freshTally :: tally where
  "freshTally = \<lparr>unhandledErrors = 0, streamsDestroyed = 0, testComplete = False\<rparr>"

definition testResults1 :: proc where
  "testResults1 =
     \<lparr>buggy = freshTally, fixed = freshTally,
      heap = (\<lambda>_. \<lparr>handlers = (\<lambda>_. []), destroyed = False\<rparr>), nextStream = 0,
      tickQueue = [], timeouts = [], uncaught = [], nextClosure = 0,
      crashed = False, printed = [], calls = [], settled = []\<rparr>"

definition consoleLog :: "remark \<Rightarrow> proc \<Rightarrow> proc" where
  "consoleLog n st = st\<lparr>printed := printed st @ [n]\<rparr>"

definition setTimeout1 :: "task \<Rightarrow> nat \<Rightarrow> proc \<Rightarrow> proc" where
  "setTimeout1 t ms st = st\<lparr>timeouts := timeouts st @ [(ms, t)]\<rparr>"

definition newReadable :: "proc \<Rightarrow> nat \<times> proc" where
  "newReadable st =
     (nextStream st,
      st\<lparr>heap := (heap st)(nextStream st := \<lparr>handlers = (\<lambda>_. []), destroyed = False\<rparr>),
         nextStream := Suc (nextStream st)\<rparr>)"

definition addListener :: "nat \<Rightarrow> event \<Rightarrow> handler \<times> bool \<Rightarrow> proc \<Rightarrow> proc" where
  "addListener s ev l st =
     st\<lparr>heap := (heap st)(s := (heap st s)
            \<lparr>handlers := (handlers (heap st s))(ev := handlers (heap st s) ev @ [l])\<rparr>),
        calls := calls st @ [Attach s ev]\<rparr>"

definition on :: "nat \<Rightarrow> event \<Rightarrow> handler \<Rightarrow> proc \<Rightarrow> proc" where
  "on s ev h st = addListener s ev (h, False) st"

definition once :: "nat \<Rightarrow> event \<Rightarrow> handler \<Rightarrow> proc \<Rightarrow> proc" where
  "once s ev h st = addListener s ev (h, True) st"

fun invoke :: "handler \<Rightarrow> proc \<Rightarrow> proc" where
  "invoke (TrackBuggy n) st =
     consoleLog (BuggyDestroyed n)
       (st\<lparr>buggy := (buggy st)\<lparr>streamsDestroyed := streamsDestroyed (buggy st) + 1\<rparr>\<rparr>)"
| "invoke (TrackFixed n) st =
     consoleLog (FixedDestroyed n)
       (st\<lparr>fixed := (fixed st)\<lparr>streamsDestroyed := streamsDestroyed (fixed st) + 1\<rparr>\<rparr>)"
| "invoke CaughtSafely st = consoleLog FixedCaught st"

text \<open>Emitting an event: the \<^verbatim>\<open>once\<close> listeners leave the emitter, then every
  listener that was attached is called.\<close>

definition deliver :: "nat \<Rightarrow> event \<Rightarrow> proc \<Rightarrow> proc" where
  "deliver s ev st =
     (let ls = handlers (heap st s) ev;
          st1 = st\<lparr>heap := (heap st)(s := (heap st s)
                  \<lparr>handlers := (handlers (heap st s))(ev := filter (\<lambda>l. \<not> snd l) ls)\<rparr>)\<rparr>
      in fold (\<lambda>l. invoke (fst l)) ls st1)"

text \<open>\<open>Inl e\<close> is the exception \<open>e\<close> thrown by \<^verbatim>\<open>emit\<close>.\<close>

definition emitError :: "nat \<Rightarrow> string \<Rightarrow> proc \<Rightarrow> string + proc" where
  "emitError s e st =
     (if handlers (heap st s) EvError = [] then Inl e else Inr (deliver s EvError st))"

definition emitClose :: "nat \<Rightarrow> proc \<Rightarrow> proc" where
  "emitClose s st = deliver s EvClose st"

definition destroy :: "nat \<Rightarrow> proc \<Rightarrow> proc" where
  "destroy s st0 =
     (let st1 = st0\<lparr>calls := calls st0 @ [Destroy s]\<rparr>
      in if destroyed (heap st1 s) then st1
         else st1\<lparr>heap := (heap st1)(s := (heap st1 s)\<lparr>destroyed := True\<rparr>),
                 tickQueue := tickQueue st1 @ [EmitClose s]\<rparr>)"

fun startsWith :: "string \<Rightarrow> string \<Rightarrow> bool" where
  "startsWith cs [] = True"
| "startsWith [] (p # ps) = False"
| "startsWith (c # cs) (p # ps) = (c = p \<and> startsWith cs ps)"

fun str_includes :: "string \<Rightarrow> string \<Rightarrow> bool" where
  "str_includes [] p = (p = [])"
| "str_includes (c # cs) p = (startsWith (c # cs) p \<or> str_includes cs p)"

definition createFailingStream :: "string \<Rightarrow> proc \<Rightarrow> nat \<times> proc" where
  "createFailingStream name st0 =
     (let (s, st1) = newReadable st0
      in (s, setTimeout1 (EmitError s (''Stream '' @ name @ '' failed'')) 100 st1))"

text \<open>The closure \<^verbatim>\<open>errorHandler\<close> of \<^verbatim>\<open>testBuggyBehavior\<close>.\<close>

definition errorHandler :: "string \<Rightarrow> proc \<Rightarrow> proc" where
  "errorHandler msg st0 =
     (if str_includes msg ''Stream 1 failed''
      then (let st1 = st0\<lparr>buggy := (buggy st0)
                        \<lparr>unhandledErrors := unhandledErrors (buggy st0) + 1\<rparr>\<rparr>;
                st2 = consoleLog (BuggyUnhandled msg) st1
            in st2\<lparr>buggy := (buggy st2)\<lparr>testComplete := True\<rparr>\<rparr>)
      else st0)"

text \<open>\<^verbatim>\<open>process.once('uncaughtException', errorHandler)\<close>: each call of the test
  makes a new closure, so the listeners are told apart by a number.\<close>

definition processOnce :: "proc \<Rightarrow> nat \<times> proc" where
  "processOnce st =
     (nextClosure st,
      st\<lparr>uncaught := uncaught st @ [nextClosure st],
         nextClosure := Suc (nextClosure st)\<rparr>)"

definition uncaughtException :: "string \<Rightarrow> proc \<Rightarrow> proc" where
  "uncaughtException e st =
     (if uncaught st = [] then st\<lparr>crashed := True\<rparr>
      else fold (\<lambda>c. errorHandler e) (uncaught st) (st\<lparr>uncaught := []\<rparr>))"

definition buggyResult :: "proc \<Rightarrow> verdict" where
  "buggyResult st =
     \<lparr>v_unhandledErrors = unhandledErrors (buggy st),
      v_streamsDestroyed = streamsDestroyed (buggy st),
      v_success = False,
      v_message = (if unhandledErrors (buggy st) > 0
                   then ''Unhandled error detected from replaced stream!''
                   else ''Waiting for error...'')\<rparr>"

definition fixedResult :: "proc \<Rightarrow> verdict" where
  "fixedResult st =
     \<lparr>v_unhandledErrors = unhandledErrors (fixed st),
      v_streamsDestroyed = streamsDestroyed (fixed st),
      v_success = True,
      v_message = ''No unhandled errors! Old stream properly cleaned up.''\<rparr>"

fun runTask :: "task \<Rightarrow> proc \<Rightarrow> proc" where
  "runTask (EmitError s e) st =
     (case emitError s e st of Inl x \<Rightarrow> uncaughtException x st | Inr st' \<Rightarrow> st')"
| "runTask (EmitClose s) st = emitClose s st"
| "runTask (RemoveUncaught c) st = st\<lparr>uncaught := remove1 c (uncaught st)\<rparr>"
| "runTask ResolveBuggy st = st\<lparr>settled := settled st @ [buggyResult st]\<rparr>"
| "runTask ResolveFixed st = st\<lparr>settled := settled st @ [fixedResult st]\<rparr>"

text \<open>A process that has ended runs nothing any more.\<close>

definition fire :: "task \<Rightarrow> proc \<Rightarrow> proc" where
  "fire t st = (if crashed st then st else runTask t st)"

definition testBuggyBehavior :: "proc \<Rightarrow> body \<times> proc" where
  "testBuggyBehavior st0 =
     (let st1 = consoleLog BuggyTesting st0;
          st2 = st1\<lparr>buggy := freshTally\<rparr>;
          (stream1, st3) = createFailingStream ''1'' st2;
          (stream2, st4) = createFailingStream ''2'' st3;
          st5 = on stream1 EvClose (TrackBuggy 1) st4;
          st6 = on stream2 EvClose (TrackBuggy 2) st5;
          body = StreamRef stream1;
          st7 = consoleLog BuggySet1 st6;
          body = StreamRef stream2;
          st8 = consoleLog BuggySet2 st7;
          (c, st9) = processOnce st8;
          st10 = setTimeout1 (RemoveUncaught c) 500 st9;
          st11 = setTimeout1 ResolveBuggy 300 st10
      in (body, st11))"

text \<open>
  Lines 128 to 136, with the local variable \<^verbatim>\<open>original\<close> as the parameter
  \<open>orig\<close>:
  \<^verbatim>\<open>original && typeof original.pipe === 'function'\<close> holds of a stream and of no
  other value.
\<close>

definition cleanupOriginal :: "body \<Rightarrow> proc \<Rightarrow> proc" where
  "cleanupOriginal orig st =
     (case orig of
        StreamRef a \<Rightarrow> destroy a (once a EvError CaughtSafely (consoleLog FixedCleaning st))
      | _ \<Rightarrow> st)"

text \<open>
  Lines 124 to 138, with the value held by \<^verbatim>\<open>body\<close> before and the value
  assigned to it as parameters. \<^verbatim>\<open>!==\<close> compares two streams by reference,
  here by their index in the heap.
\<close>

definition replaceBody :: "body \<Rightarrow> body \<Rightarrow> proc \<Rightarrow> body \<times> proc" where
  "replaceBody current val st =
     (let orig = current;
          body = val;
          st1 = (if orig \<noteq> body then cleanupOriginal orig st else st)
      in (body, consoleLog FixedSet2 st1))"

definition testFixedBehavior :: "proc \<Rightarrow> body \<times> proc" where
  "testFixedBehavior st0 =
     (let st1 = consoleLog FixedTestingR st0;
          st2 = st1\<lparr>fixed := freshTally\<rparr>;
          (stream1, st3) = createFailingStream ''1'' st2;
          (stream2, st4) = createFailingStream ''2'' st3;
          st5 = on stream1 EvClose (TrackFixed 1) st4;
          st6 = on stream2 EvClose (TrackFixed 2) st5;
          body = StreamRef stream1;
          st7 = consoleLog FixedSet1 st6;
          (body, st8) = replaceBody body (StreamRef stream2) st7;
          st9 = setTimeout1 ResolveFixed 300 st8
      in (body, st9))"

text \<open>A run of assignments to \<^verbatim>\<open>body\<close>, each through the replacement logic.\<close>

fun setBodies :: "body list \<Rightarrow> body \<times> proc \<Rightarrow> body \<times> proc" where
  "setBodies [] bs = bs"
| "setBodies (v # vs) bs = setBodies vs (replaceBody (fst bs) v (snd bs))"

text \<open>
  The event loop after one request: the next-tick queue is emptied after the
  request and after every timer callback, and the timers run by delay, those of
  equal delay in the order of their creation. No callback of this program
  starts a timer, and no listener queues a tick.
\<close>

definition drainTicks :: "proc \<Rightarrow> proc" where
  "drainTicks st = fold fire (tickQueue st) (st\<lparr>tickQueue := []\<rparr>)"

definition runAll :: "proc \<Rightarrow> proc" where
  "runAll st =
     fold (\<lambda>t s. drainTicks (fire (snd t) s)) (sort_key fst (timeouts st))
       (drainTicks (st\<lparr>timeouts := []\<rparr>))"

text \<open>The streams on which \<^verbatim>\<open>destroy\<close> was called, in order.\<close>

definition retirements :: "proc \<Rightarrow> nat list" where
  "retirements st = concat (map (\<lambda>c. case c of Destroy s \<Rightarrow> [s] | _ \<Rightarrow> []) (calls st))"

text \<open>What each listener prints when it is called.\<close>

fun remarkOf :: "handler \<Rightarrow> remark" where
  "remarkOf (TrackBuggy n) = BuggyDestroyed n"
| "remarkOf (TrackFixed n) = FixedDestroyed n"
| "remarkOf CaughtSafely = FixedCaught"

text \<open>
  Three notions used to state the properties of a run of assignments: the streams
  that an assignment of a different value displaces, in order; the calls that
  the cleanup of a list of streams makes; and the check that, in a history of
  calls, every \<^verbatim>\<open>destroy\<close> of a stream comes after an \<^verbatim>\<open>error\<close> listener was
  attached to that stream.
\<close>

fun displaced :: "body \<Rightarrow> body list \<Rightarrow> nat list" where
  "displaced b [] = []"
| "displaced b (v # vs) =
     (case b of StreamRef a \<Rightarrow> (if b \<noteq> v then [a] else []) | _ \<Rightarrow> []) @ displaced v vs"

definition retireCalls :: "nat list \<Rightarrow> call list" where
  "retireCalls xs = concat (map (\<lambda>a. [Attach a EvError, Destroy a]) xs)"

fun observedBeforeDestroy :: "nat list \<Rightarrow> call list \<Rightarrow> bool" where
  "observedBeforeDestroy seen [] = True"
| "observedBeforeDestroy seen (Attach s EvError # cs) = observedBeforeDestroy (s # seen) cs"
| "observedBeforeDestroy seen (Attach s EvClose # cs) = observedBeforeDestroy seen cs"
| "observedBeforeDestroy seen (Destroy s # cs) =
     (s \<in> set seen \<and> observedBeforeDestroy seen cs)"

text \<open>
  What can happen to the process after an assignment: a queued callback runs, or
  a request arrives at one of the two test routes. A process that has ended
  serves no request.
\<close>

datatype happening = Callback task | RequestBuggy | RequestFixed

fun happen :: "happening \<Rightarrow> proc \<Rightarrow> proc" where
  "happen (Callback t) st = fire t st"
| "happen RequestBuggy st = (if crashed st then st else snd (testBuggyBehavior st))"
| "happen RequestFixed st = (if crashed st then st else snd (testFixedBehavior st))"

section \<open>Properties of the pipeline demo\<close>

subsection \<open>The counters of the original path\<close>

lemma original_step_activeStreams:
  "activeStreams (original (step x st)) =
     activeStreams (original st) + (if x = CallOriginal then 1 else 0)"
proof (cases x)
  case CallOriginal
  then show ?thesis
    by (simp add: simulateOriginalBehavior_def Let_def say_def setTimeout_def)
next
  case CallFixed
  then show ?thesis
    by (simp add: simulateFixedBehavior_def Let_def say_def setTimeout_def pipeline_def)
next
  case (Fire ms t)
  then show ?thesis
    by (cases t)
      (simp_all add: originalDisconnect_def fixedDisconnect_def finishPipeline_def
        pipelineCallback_def Let_def say_def)
next
  case (SourceEnds p)
  then show ?thesis
    by (simp add: finishPipeline_def pipelineCallback_def Let_def say_def)
next
  case (SourceFails p)
  then show ?thesis
    by (simp add: finishPipeline_def pipelineCallback_def Let_def say_def)
qed

lemma original_exec_activeStreams:
  "activeStreams (original (exec xs st)) =
     activeStreams (original st) + int (count_list xs CallOriginal)"
  unfolding exec_def
  by (induction xs arbitrary: st) (simp_all add: original_step_activeStreams)

lemma original_call_increments:
  "streamsCreated (original (step CallOriginal st)) = streamsCreated (original st) + 1 \<and>
   activeConnections (original (step CallOriginal st)) = activeConnections (original st) + 1"
  by (simp add: simulateOriginalBehavior_def Let_def say_def setTimeout_def)

text \<open>
  Claim C10. On the pipe-based path the counters only accumulate: a call of
  \<^verbatim>\<open>simulateOriginalBehavior\<close> adds one to \<^verbatim>\<open>streamsCreated\<close>,
  \<^verbatim>\<open>activeConnections\<close> and \<^verbatim>\<open>activeStreams\<close>; no event of the program, in any
  order, lowers \<^verbatim>\<open>testResults.original.activeStreams\<close>; so after any run that
  starts with the module freshly loaded it equals the number of calls made.
\<close>

theorem leak_counter_is_cumulative:
  "activeStreams (original (exec xs testResults)) = int (count_list xs CallOriginal) \<and>
   activeStreams (original st) \<le> activeStreams (original (step x st)) \<and>
   streamsCreated (original (step CallOriginal st)) = streamsCreated (original st) + 1 \<and>
   activeConnections (original (step CallOriginal st)) = activeConnections (original st) + 1 \<and>
   activeStreams (original (step CallOriginal st)) = activeStreams (original st) + 1"
proof -
  have "activeStreams (original (exec xs testResults)) = int (count_list xs CallOriginal)"
    by (simp add: original_exec_activeStreams) (simp add: testResults_def)
  moreover have "activeStreams (original st) \<le> activeStreams (original (step x st))"
    by (simp only: original_step_activeStreams) simp
  moreover have "activeStreams (original (step CallOriginal st)) = activeStreams (original st) + 1"
    by (simp only: original_step_activeStreams) simp
  ultimately show ?thesis
    using original_call_increments [of st] by blast
qed

subsection \<open>The end of a pipeline\<close>

lemma out_pipelineCallback:
  "out (pipelineCallback e st) =
     out st @ (if e \<noteq> None then [FixedErrorAbort] else []) @
       [FixedAfterCleanup (activeConnections (patched st) - 1) (activeStreams (patched st) - 1),
        FixedCleanedUp]"
  by (simp add: pipelineCallback_def Let_def say_def)

lemma patched_pipelineCallback:
  "patched (pipelineCallback e st) =
     (patched st)\<lparr>activeConnections := activeConnections (patched st) - 1,
                   activeStreams := activeStreams (patched st) - 1\<rparr>"
  by (simp add: pipelineCallback_def Let_def say_def)

lemma pipelines_pipelineCallback: "pipelines (pipelineCallback e st) = pipelines st"
  by (simp add: pipelineCallback_def Let_def say_def)

text \<open>The callback looks at nothing but the presence of an error.\<close>

lemma pipelineCallback_error_blind:
  "pipelineCallback (Some e) st = pipelineCallback (Some e') st"
  by (simp add: pipelineCallback_def)




text \<open>
  Claim C7, as the program has it. Closing the sink ends the running pipeline
  through the same callback, with an error, exactly as a failure of the source
  does: the two final states are equal. The connection and the stream are counted
  down once, the pipeline is over, and the error branch has run, so the abort is
  reported the way an error is and not told apart from one.
\<close>

theorem abort_cleans_up_like_error:
  "finishPipeline p SinkAbort st = finishPipeline p SourceError st \<and>
   (p \<in> set (pipelines st) \<longrightarrow>
      activeConnections (patched (fixedDisconnect p st)) = activeConnections (patched st) - 1 \<and>
      activeStreams (patched (fixedDisconnect p st)) = activeStreams (patched st) - 1 \<and>
      reportCount (fixedDisconnect p st) = reportCount st + 1 \<and>
      p \<notin> set (pipelines (fixedDisconnect p st)))"
  by (simp add: finishPipeline_def fixedDisconnect_def patched_pipelineCallback
      pipelines_pipelineCallback reportCount_def out_pipelineCallback say_def
      pipelineCallback_error_blind [of PrematureClose _ SourceFailed])

theorem abort_cleans_up_like_error_witness:
  "0 \<in> set (pipelines (exec [CallFixed] testResults)) \<and>
   finishPipeline 0 SinkAbort (exec [CallFixed] testResults) =
     finishPipeline 0 SourceError (exec [CallFixed] testResults) \<and>
   activeConnections (patched (exec [CallFixed] testResults)) = 1 \<and>
   activeConnections (patched (fixedDisconnect 0 (exec [CallFixed] testResults))) = 0 \<and>
   activeStreams (patched (fixedDisconnect 0 (exec [CallFixed] testResults))) = 0 \<and>
   reportCount (fixedDisconnect 0 (exec [CallFixed] testResults)) = 1 \<and>
   0 \<notin> set (pipelines (fixedDisconnect 0 (exec [CallFixed] testResults)))"
  using abort_cleans_up_like_error [of 0 "exec [CallFixed] testResults"]
  by (simp add: exec_def testResults_def simulateFixedBehavior_def pipeline_def say_def
      setTimeout_def Let_def reportCount_def)

text \<open>
  Against claim C7 as it is stated: one request to the fixed route, then the
  timer that closes the sink after two seconds. Nothing was reported before the
  abort, and the abort makes the callback take its error branch.
\<close>

theorem abort_takes_error_branch:
  "reportCount (exec [CallFixed] testResults) = 0 \<and>
   reportCount (exec [CallFixed, Fire 2000 (FixedDisconnect 0)] testResults) = 1"
  by (simp add: exec_def testResults_def simulateFixedBehavior_def pipeline_def say_def
      setTimeout_def Let_def finishPipeline_def pipelineCallback_def reportCount_def
      fixedDisconnect_def)

section \<open>Properties of the stream replacement demo\<close>

subsection \<open>What the listeners and the event loop leave alone\<close>

lemma invoke_frame:
  "heap (invoke h st) = heap st" "calls (invoke h st) = calls st"
  "tickQueue (invoke h st) = tickQueue st" "timeouts (invoke h st) = timeouts st"
  "uncaught (invoke h st) = uncaught st" "crashed (invoke h st) = crashed st"
  "settled (invoke h st) = settled st"
  "unhandledErrors (buggy (invoke h st)) = unhandledErrors (buggy st)"
  "unhandledErrors (fixed (invoke h st)) = unhandledErrors (fixed st)"
  "printed (invoke h st) = printed st @ [remarkOf h]"
  by (cases h; simp add: consoleLog_def)+

lemma fold_invoke_frame:
  "heap (fold (\<lambda>l. invoke (fst l)) ls st) = heap st"
  "calls (fold (\<lambda>l. invoke (fst l)) ls st) = calls st"
  "tickQueue (fold (\<lambda>l. invoke (fst l)) ls st) = tickQueue st"
  "timeouts (fold (\<lambda>l. invoke (fst l)) ls st) = timeouts st"
  "uncaught (fold (\<lambda>l. invoke (fst l)) ls st) = uncaught st"
  "crashed (fold (\<lambda>l. invoke (fst l)) ls st) = crashed st"
  "settled (fold (\<lambda>l. invoke (fst l)) ls st) = settled st"
  "unhandledErrors (buggy (fold (\<lambda>l. invoke (fst l)) ls st)) = unhandledErrors (buggy st)"
  "unhandledErrors (fixed (fold (\<lambda>l. invoke (fst l)) ls st)) = unhandledErrors (fixed st)"
  "printed (fold (\<lambda>l. invoke (fst l)) ls st) = printed st @ map (\<lambda>l. remarkOf (fst l)) ls"
  by (induction ls arbitrary: st; simp add: invoke_frame)+

lemma deliver_frame:
  "calls (deliver s ev st) = calls st"
  "tickQueue (deliver s ev st) = tickQueue st"
  "timeouts (deliver s ev st) = timeouts st"
  "uncaught (deliver s ev st) = uncaught st"
  "crashed (deliver s ev st) = crashed st"
  "settled (deliver s ev st) = settled st"
  "unhandledErrors (buggy (deliver s ev st)) = unhandledErrors (buggy st)"
  "unhandledErrors (fixed (deliver s ev st)) = unhandledErrors (fixed st)"
  "printed (deliver s ev st) =
     printed st @ map (\<lambda>l. remarkOf (fst l)) (handlers (heap st s) ev)"
  by (simp_all add: deliver_def Let_def fold_invoke_frame)

lemma heap_deliver:
  "heap (deliver s ev st) =
     (heap st)(s := (heap st s)\<lparr>handlers := (handlers (heap st s))
        (ev := filter (\<lambda>l. \<not> snd l) (handlers (heap st s) ev))\<rparr>)"
  by (simp add: deliver_def Let_def fold_invoke_frame)

lemma heap_errorHandler: "heap (errorHandler e st) = heap st"
  by (simp add: errorHandler_def Let_def consoleLog_def)

lemma heap_fold_errorHandler: "heap (fold (\<lambda>c. errorHandler e) cs st) = heap st"
  by (induction cs arbitrary: st) (simp_all add: heap_errorHandler)

lemma heap_uncaughtException: "heap (uncaughtException e st) = heap st"
  by (simp add: uncaughtException_def heap_fold_errorHandler)

text \<open>Only the emission of an error on a stream takes error listeners away from it.\<close>

lemma error_listeners_fire:
  "\<forall>m. t \<noteq> EmitError a m \<Longrightarrow>
     handlers (heap (fire t st) a) EvError = handlers (heap st a) EvError"
  by (cases t)
    (auto simp add: fire_def emitError_def emitClose_def heap_deliver heap_uncaughtException)

subsection \<open>The cleanup of a replaced stream\<close>

lemma cleanupOriginal_stream:
  "cleanupOriginal (StreamRef a) st =
     destroy a (once a EvError CaughtSafely (consoleLog FixedCleaning st))"
  by (simp add: cleanupOriginal_def)



lemma calls_cleanupOriginal:
  "calls (cleanupOriginal b st) =
     calls st @ (case b of StreamRef a \<Rightarrow> [Attach a EvError, Destroy a] | _ \<Rightarrow> [])"
  by (cases b)
    (simp_all add: cleanupOriginal_def destroy_def once_def addListener_def consoleLog_def
      Let_def)

lemma destroyed_cleanupOriginal:
  "destroyed (heap (cleanupOriginal b st) x) = (destroyed (heap st x) \<or> b = StreamRef x)"
  by (cases b)
    (auto simp add: cleanupOriginal_def destroy_def once_def addListener_def consoleLog_def
      Let_def)

lemma fst_replaceBody: "fst (replaceBody c v st) = v"
  by (simp add: replaceBody_def Let_def)

lemma calls_replaceBody:
  "calls (snd (replaceBody c v st)) = calls st @ retireCalls (displaced c [v])"
  by (cases c)
    (simp_all add: replaceBody_def Let_def consoleLog_def calls_cleanupOriginal retireCalls_def)

lemma destroyed_replaceBody:
  "destroyed (heap (snd (replaceBody c v st)) x) =
     (destroyed (heap st x) \<or> x \<in> set (displaced c [v]))"
  by (cases c) (auto simp add: replaceBody_def Let_def consoleLog_def destroyed_cleanupOriginal)

subsection \<open>Runs of assignments\<close>

lemma retireCalls_append: "retireCalls (xs @ ys) = retireCalls xs @ retireCalls ys"
  by (simp add: retireCalls_def)

lemma displaced_Cons: "displaced b (v # vs) = displaced b [v] @ displaced v vs"
  by simp

lemma setBodies_Cons:
  "setBodies (v # vs) (b, st) = setBodies vs (v, snd (replaceBody b v st))"
  using fst_replaceBody [of b v st] by (cases "replaceBody b v st") simp

lemma calls_setBodies:
  "calls (snd (setBodies vs (b, st))) = calls st @ retireCalls (displaced b vs)"
proof (induction vs arbitrary: b st)
  case Nil
  then show ?case by (simp add: retireCalls_def)
next
  case (Cons v vs)
  show ?case
    using Cons.IH [of v "snd (replaceBody b v st)"]
    by (simp only: setBodies_Cons calls_replaceBody displaced_Cons [of b v vs]
        retireCalls_append append_assoc)
qed

lemma fst_setBodies: "fst (setBodies vs (b, st)) = last (b # vs)"
proof (induction vs arbitrary: b st)
  case Nil
  then show ?case by simp
next
  case (Cons v vs)
  then show ?case by (simp only: setBodies_Cons) simp
qed

lemma destroyed_setBodies:
  "destroyed (heap (snd (setBodies vs (b, st))) x) =
     (destroyed (heap st x) \<or> x \<in> set (displaced b vs))"
proof (induction vs arbitrary: b st)
  case Nil
  then show ?case by simp
next
  case (Cons v vs)
  show ?case
    using Cons.IH [of v "snd (replaceBody b v st)"]
    by (simp only: setBodies_Cons destroyed_replaceBody displaced_Cons [of b v vs] set_append)
      blast
qed

lemma observed_retireCalls: "observedBeforeDestroy seen (retireCalls xs)"
  by (induction xs arbitrary: seen) (simp_all add: retireCalls_def)

lemma retirements_append:
  "calls st' = calls st @ retireCalls xs \<Longrightarrow> retirements st' = retirements st @ xs"
proof -
  have "concat (map (\<lambda>c. case c of Destroy s \<Rightarrow> [s] | _ \<Rightarrow> []) (retireCalls xs)) = xs"
    by (induction xs) (simp_all add: retireCalls_def)
  then show "calls st' = calls st @ retireCalls xs \<Longrightarrow> retirements st' = retirements st @ xs"
    by (simp add: retirements_def)
qed

lemma displaced_distinct:
  "distinct (a # xs) \<Longrightarrow> displaced (StreamRef a) (map StreamRef xs) = butlast (a # xs)"
  by (induction xs arbitrary: a) auto

subsection \<open>The two tests, run from a freshly loaded module\<close>

text \<open>
  In the buggy test the replaced stream has no \<^verbatim>\<open>error\<close> listener: its error is
  thrown by \<^verbatim>\<open>emit\<close>, reaches \<^verbatim>\<open>errorHandler\<close> as an uncaught exception and is
  counted.
\<close>

lemma buggy_run:
  "emitError 0 e (snd (testBuggyBehavior testResults1)) = Inl e \<and>
   unhandledErrors (buggy (runAll (snd (testBuggyBehavior testResults1)))) = 1 \<and>
   retirements (runAll (snd (testBuggyBehavior testResults1))) = []"
proof -
  have "emitError 0 e (snd (testBuggyBehavior testResults1)) = Inl e"
    by (simp add: testBuggyBehavior_def testResults1_def createFailingStream_def
        newReadable_def setTimeout1_def on_def addListener_def consoleLog_def processOnce_def
        emitError_def Let_def)
  moreover have "unhandledErrors (buggy (runAll (snd (testBuggyBehavior testResults1)))) = 1"
    by code_simp
  moreover have "retirements (runAll (snd (testBuggyBehavior testResults1))) = []"
    by code_simp
  ultimately show ?thesis by blast
qed

text \<open>
  In the fixed test stream 1 is destroyed on the next tick and its error, 100 ms
  later, goes to the listener that the cleanup attached. Stream 2 is still
  assigned at that time and has no \<^verbatim>\<open>error\<close> listener either, and this test
  installs no \<^verbatim>\<open>uncaughtException\<close> listener: the error of stream 2 ends the
  process before the promise is resolved.
\<close>

lemma fixed_run:
  "unhandledErrors (fixed (runAll (snd (testFixedBehavior testResults1)))) = 0 \<and>
   streamsDestroyed (fixed (runAll (snd (testFixedBehavior testResults1)))) = 1 \<and>
   printed (runAll (snd (testFixedBehavior testResults1))) =
     [FixedTestingR, FixedSet1, FixedCleaning, FixedSet2, FixedDestroyed 1, FixedCaught] \<and>
   crashed (runAll (snd (testFixedBehavior testResults1))) \<and>
   settled (runAll (snd (testFixedBehavior testResults1))) = []"
  by code_simp

subsection \<open>Streams that exist are left alone by later requests\<close>

lemma nextStream_invoke: "nextStream (invoke h st) = nextStream st"
  by (cases h) (simp_all add: consoleLog_def)

lemma nextStream_fold_invoke:
  "nextStream (fold (\<lambda>l. invoke (fst l)) ls st) = nextStream st"
  by (induction ls arbitrary: st) (simp_all add: nextStream_invoke)

lemma nextStream_deliver: "nextStream (deliver s ev st) = nextStream st"
  by (simp add: deliver_def Let_def nextStream_fold_invoke)

lemma nextStream_errorHandler: "nextStream (errorHandler e st) = nextStream st"
  by (simp add: errorHandler_def Let_def consoleLog_def)

lemma nextStream_fold_errorHandler:
  "nextStream (fold (\<lambda>c. errorHandler e) cs st) = nextStream st"
  by (induction cs arbitrary: st) (simp_all add: nextStream_errorHandler)

lemma nextStream_uncaughtException: "nextStream (uncaughtException e st) = nextStream st"
  by (simp add: uncaughtException_def nextStream_fold_errorHandler)

lemma nextStream_fire: "nextStream (fire t st) = nextStream st"
  by (cases t)
    (auto simp add: fire_def emitError_def emitClose_def nextStream_deliver
      nextStream_uncaughtException)


lemma testBuggyBehavior_old_streams:
  "a < nextStream st \<Longrightarrow>
     handlers (heap (snd (testBuggyBehavior st)) a) EvError = handlers (heap st a) EvError \<and>
     a < nextStream (snd (testBuggyBehavior st))"
  by (simp add: testBuggyBehavior_def createFailingStream_def newReadable_def setTimeout1_def
      on_def addListener_def consoleLog_def processOnce_def Let_def)

lemma testFixedBehavior_old_streams:
  "a < nextStream st \<Longrightarrow>
     handlers (heap (snd (testFixedBehavior st)) a) EvError = handlers (heap st a) EvError \<and>
     a < nextStream (snd (testFixedBehavior st))"
  by (simp add: testFixedBehavior_def createFailingStream_def newReadable_def setTimeout1_def
      on_def addListener_def consoleLog_def replaceBody_def cleanupOriginal_def destroy_def
      once_def Let_def)

lemma testFixedBehavior_stream1:
  "handlers (heap (snd (testFixedBehavior st)) (nextStream st)) EvError =
     [(CaughtSafely, True)] \<and>
   nextStream st < nextStream (snd (testFixedBehavior st))"
  by (simp add: testFixedBehavior_def createFailingStream_def newReadable_def setTimeout1_def
      on_def addListener_def consoleLog_def replaceBody_def cleanupOriginal_def destroy_def
      once_def Let_def)

lemma happen_old_streams:
  assumes "a < nextStream st" and "\<forall>m. h \<noteq> Callback (EmitError a m)"
  shows "handlers (heap (happen h st) a) EvError = handlers (heap st a) EvError \<and>
         a < nextStream (happen h st)"
proof (cases h)
  case (Callback t)
  with assms(2) have "\<forall>m. t \<noteq> EmitError a m" by auto
  with Callback assms(1) show ?thesis
    by (simp add: error_listeners_fire nextStream_fire)
next
  case RequestBuggy
  with assms(1) show ?thesis
    using testBuggyBehavior_old_streams [of a st] by simp
next
  case RequestFixed
  with assms(1) show ?thesis
    using testFixedBehavior_old_streams [of a st] by simp
qed

lemma fold_happen_old_streams:
  "a < nextStream st \<Longrightarrow> \<forall>m. Callback (EmitError a m) \<notin> set hs \<Longrightarrow>
     handlers (heap (fold happen hs st) a) EvError = handlers (heap st a) EvError"
proof (induction hs arbitrary: st)
  case Nil
  then show ?case by simp
next
  case (Cons h hs)
  then have h: "\<forall>m. h \<noteq> Callback (EmitError a m)"
    and hs: "\<forall>m. Callback (EmitError a m) \<notin> set hs"
    by auto
  from happen_old_streams [OF Cons.prems(1) h]
  have "handlers (heap (happen h st) a) EvError = handlers (heap st a) EvError"
    and "a < nextStream (happen h st)"
    by simp_all
  with Cons.IH [of "happen h st"] hs show ?case by simp
qed

text \<open>A stream whose last \<^verbatim>\<open>error\<close> listener is the one of the cleanup takes its
  next error without throwing, and nothing but the console changes.\<close>

lemma absorbed_when_listening:
  assumes "handlers (heap st2 a) EvError = ls @ [(CaughtSafely, True)]"
  shows "(\<exists>st'. emitError a e st2 = Inr st') \<and>
    (let st3 = fire (EmitError a e) st2
     in crashed st3 = crashed st2 \<and> uncaught st3 = uncaught st2 \<and>
        unhandledErrors (buggy st3) = unhandledErrors (buggy st2) \<and>
        unhandledErrors (fixed st3) = unhandledErrors (fixed st2) \<and>
        (crashed st2 \<or> FixedCaught \<in> set (drop (length (printed st2)) (printed st3))))"
proof -
  from assms have "handlers (heap st2 a) EvError \<noteq> []" by simp
  then have emit: "emitError a e st2 = Inr (deliver a EvError st2)"
    by (simp add: emitError_def)
  have run: "fire (EmitError a e) st2 = (if crashed st2 then st2 else deliver a EvError st2)"
    by (simp add: fire_def emit)
  show ?thesis
    unfolding Let_def run using emit by (simp add: deliver_frame assms)
qed


text \<open>The situation of the theorem below is the one \<^verbatim>\<open>testFixedBehavior\<close> makes:
  after the test, and after anything that is not an error of its stream 1, the
  error of stream 1 does not throw.\<close>

lemma fixed_test_stream1_absorbed:
  assumes "\<forall>m. Callback (EmitError (nextStream st) m) \<notin> set hs"
  shows "\<exists>st'. emitError (nextStream st) e (fold happen hs (snd (testFixedBehavior st))) = Inr st'"
proof -
  have "handlers (heap (fold happen hs (snd (testFixedBehavior st))) (nextStream st)) EvError =
      [] @ [(CaughtSafely, True)]"
    using testFixedBehavior_stream1 [of st] assms by (simp add: fold_happen_old_streams)
  from absorbed_when_listening [OF this, of e] show ?thesis by blast
qed

section \<open>The claims about stream replacement\<close>




text \<open>
  Claim C2. The cleanup of a replaced stream makes exactly two calls on it, in
  this order: it attaches the \<^verbatim>\<open>error\<close> listener, then it destroys the stream;
  the state in which \<^verbatim>\<open>destroy\<close> is called has an \<^verbatim>\<open>error\<close> listener on that
  stream. In the calls made by any run of assignments, from any state, every
  \<^verbatim>\<open>destroy\<close> of a stream comes after an \<^verbatim>\<open>error\<close> listener was attached to it.
  The listener does nothing but print a line, and a value that is not a stream
  is left alone.
\<close>

theorem observer_attached_before_destroy:
  "calls (cleanupOriginal (StreamRef a) st) = calls st @ [Attach a EvError, Destroy a] \<and>
   cleanupOriginal (StreamRef a) st =
     destroy a (once a EvError CaughtSafely (consoleLog FixedCleaning st)) \<and>
   handlers (heap (once a EvError CaughtSafely (consoleLog FixedCleaning st)) a) EvError \<noteq> [] \<and>
   observedBeforeDestroy [] (drop (length (calls st)) (calls (snd (setBodies vs (b, st))))) \<and>
   invoke CaughtSafely st = st\<lparr>printed := printed st @ [FixedCaught]\<rparr> \<and>
   cleanupOriginal Null st = st \<and> cleanupOriginal (Text s) st = st"
proof -
  have "calls (cleanupOriginal (StreamRef a) st) = calls st @ [Attach a EvError, Destroy a]"
    by (simp add: calls_cleanupOriginal)
  moreover have "handlers (heap (once a EvError CaughtSafely (consoleLog FixedCleaning st)) a)
      EvError \<noteq> []"
    by (simp add: once_def addListener_def)
  moreover have "observedBeforeDestroy []
      (drop (length (calls st)) (calls (snd (setBodies vs (b, st)))))"
    by (simp add: calls_setBodies observed_retireCalls)
  moreover have "invoke CaughtSafely st = st\<lparr>printed := printed st @ [FixedCaught]\<rparr>"
    by (simp add: consoleLog_def)
  moreover have "cleanupOriginal Null st = st \<and> cleanupOriginal (Text s) st = st"
    by (simp add: cleanupOriginal_def)
  ultimately show ?thesis
    using cleanupOriginal_stream [of a st] by blast
qed

text \<open>
  Claim C3, as the program has it. In every run of assignments, of any values,
  the cleanup is called at each assignment that replaces a stream by a value
  other than that same stream, on the stream that is displaced, and at no other
  time; \<open>displaced\<close> lists these streams in order. So a value that is not a
  stream is never cleaned up, a stream that is assigned again after it was
  displaced is cleaned up again when it is next displaced, and the value
  assigned last stays assigned and is not cleaned up by the run: the program has
  no step that finalizes the body. A stream is destroyed after the run exactly
  when it was destroyed before or was displaced in it, whether or not anything
  ever read from it. When the values are pairwise different streams, the streams
  cleaned up are all but the last, each once.
\<close>

theorem cleanup_follows_displacement:
  "retirements (snd (setBodies vs (b, st))) = retirements st @ displaced b vs \<and>
   fst (setBodies vs (b, st)) = last (b # vs) \<and>
   destroyed (heap (snd (setBodies vs (b, st))) x) =
     (destroyed (heap st x) \<or> x \<in> set (displaced b vs)) \<and>
   (distinct (a # xs) \<longrightarrow> displaced (StreamRef a) (map StreamRef xs) = butlast (a # xs))"
  using calls_setBodies [of vs b st]
  by (simp add: retirements_append fst_setBodies destroyed_setBodies displaced_distinct)

theorem cleanup_follows_displacement_witness:
  "retirements (snd (setBodies [StreamRef 1, StreamRef 0, StreamRef 1]
     (StreamRef 0, testResults1))) = [0, 1, 0] \<and>
   retirements (snd (setBodies [Null, StreamRef 1, Text ''ok'', StreamRef 1, StreamRef 1]
     (StreamRef 0, testResults1))) = [0, 1] \<and>
   fst (setBodies [Null, StreamRef 1, Text ''ok'', StreamRef 1, StreamRef 1]
     (StreamRef 0, testResults1)) = StreamRef 1 \<and>
   destroyed (heap (snd (setBodies [StreamRef 1, StreamRef 2] (StreamRef 0, testResults1))) 1) \<and>
   \<not> destroyed (heap (snd (setBodies [StreamRef 1, StreamRef 2] (StreamRef 0, testResults1))) 2) \<and>
   distinct [0 :: nat, 1, 2] \<and>
   displaced (StreamRef 0) (map StreamRef [1, 2]) = butlast [0, 1, 2]"
  using cleanup_follows_displacement
      [of "[StreamRef 1, StreamRef 0, StreamRef 1]" "StreamRef 0" testResults1 0 0 "[1, 2]"]
    cleanup_follows_displacement
      [of "[Null, StreamRef 1, Text ''ok'', StreamRef 1, StreamRef 1]" "StreamRef 0"
        testResults1 0 0 "[1, 2]"]
    cleanup_follows_displacement
      [of "[StreamRef 1, StreamRef 2]" "StreamRef 0" testResults1 1 0 "[1, 2]"]
    cleanup_follows_displacement
      [of "[StreamRef 1, StreamRef 2]" "StreamRef 0" testResults1 2 0 "[1, 2]"]
  by (simp add: retirements_def testResults1_def)

text \<open>
  Against claim C3 as it is stated: the whole run of \<^verbatim>\<open>testFixedBehavior\<close> from
  a freshly loaded module. Two streams are created and both are assigned to
  \<^verbatim>\<open>body\<close>; the cleanup is called once, on stream 1 (index 0); stream 2
  (index 1) is the body at the end and is never destroyed.
\<close>

theorem last_stream_is_never_retired:
  "nextStream (snd (testFixedBehavior testResults1)) = 2 \<and>
   fst (testFixedBehavior testResults1) = StreamRef 1 \<and>
   retirements (runAll (snd (testFixedBehavior testResults1))) = [0] \<and>
   \<not> destroyed (heap (runAll (snd (testFixedBehavior testResults1))) 1)"
  by code_simp

text \<open>
  Claim C4. Assigning to \<^verbatim>\<open>body\<close> the value it already holds cleans nothing
  up: the assignment prints its line and does nothing else, so no listener is
  attached, nothing is destroyed and no \<^verbatim>\<open>close\<close> event is queued. The comparison
  is by reference: of two different streams in the same condition, the replaced
  one is cleaned up.
\<close>

theorem same_body_is_not_cleaned_up:
  "snd (replaceBody v v st) = consoleLog FixedSet2 st \<and>
   calls (snd (replaceBody v v st)) = calls st \<and>
   heap (snd (replaceBody v v st)) = heap st \<and>
   tickQueue (snd (replaceBody v v st)) = tickQueue st \<and>
   (a \<noteq> b \<and> heap st a = heap st b \<longrightarrow>
      retirements (snd (replaceBody (StreamRef a) (StreamRef b) st)) = retirements st @ [a] \<and>
      destroyed (heap (snd (replaceBody (StreamRef a) (StreamRef b) st)) a))"
  by (simp add: replaceBody_def Let_def consoleLog_def cleanupOriginal_def destroy_def once_def
      addListener_def retirements_def)

theorem same_body_is_not_cleaned_up_witness:
  "(0 :: nat) \<noteq> 1 \<and>
   heap testResults1 0 = heap testResults1 1 \<and>
   calls (snd (replaceBody (StreamRef 0) (StreamRef 0) testResults1)) = [] \<and>
   tickQueue (snd (replaceBody (StreamRef 0) (StreamRef 0) testResults1)) = [] \<and>
   retirements (snd (replaceBody (StreamRef 0) (StreamRef 1) testResults1)) = [0] \<and>
   destroyed (heap (snd (replaceBody (StreamRef 0) (StreamRef 1) testResults1)) 0)"
proof -
  have h: "(0 :: nat) \<noteq> 1 \<and> heap testResults1 0 = heap testResults1 1"
    by (simp add: testResults1_def)
  have e: "calls testResults1 = []" "tickQueue testResults1 = []"
    "retirements testResults1 @ [0] = [0]"
    by (simp_all add: testResults1_def retirements_def)
  from h same_body_is_not_cleaned_up [of "StreamRef 0" testResults1 0 1]
  have "calls (snd (replaceBody (StreamRef 0) (StreamRef 0) testResults1)) = calls testResults1"
    and "tickQueue (snd (replaceBody (StreamRef 0) (StreamRef 0) testResults1)) =
      tickQueue testResults1"
    and "retirements (snd (replaceBody (StreamRef 0) (StreamRef 1) testResults1)) =
      retirements testResults1 @ [0]"
    and "destroyed (heap (snd (replaceBody (StreamRef 0) (StreamRef 1) testResults1)) 0)"
    by blast+
  with h e show ?thesis
    by (simp only: simp_thms)
qed

text \<open>
  Claim C5, as the program has it. The cleanup keeps no record of the streams it
  has cleaned up. Called a second time on the same stream it calls \<^verbatim>\<open>once\<close> and
  \<^verbatim>\<open>destroy\<close> again: the stream gets one more \<^verbatim>\<open>error\<close> listener. What happens
  at most once is the destruction itself: the stream is destroyed after the first
  call and stays so, and the second call queues no further \<^verbatim>\<open>close\<close> event and
  changes no \<^verbatim>\<open>close\<close> listener.
\<close>

theorem second_cleanup_attaches_again:
  "(let st1 = cleanupOriginal (StreamRef a) st;
        st2 = cleanupOriginal (StreamRef a) st1
    in destroyed (heap st1 a) \<and> destroyed (heap st2 a) \<and>
       tickQueue st2 = tickQueue st1 \<and>
       handlers (heap st2 a) EvClose = handlers (heap st1 a) EvClose \<and>
       handlers (heap st2 a) EvError = handlers (heap st1 a) EvError @ [(CaughtSafely, True)] \<and>
       calls st2 = calls st1 @ [Attach a EvError, Destroy a])"
  by (simp add: Let_def cleanupOriginal_def destroy_def once_def addListener_def consoleLog_def)

text \<open>
  Against claim C5 as it is stated: a stream made by \<^verbatim>\<open>createFailingStream\<close>,
  cleaned up twice. It ends with two \<^verbatim>\<open>error\<close> listeners, and \<^verbatim>\<open>destroy\<close> was
  called on it twice.
\<close>

theorem cleanup_twice_two_observers:
  "handlers (heap (cleanupOriginal (StreamRef 0) (cleanupOriginal (StreamRef 0)
        (snd (createFailingStream ''1'' testResults1)))) 0) EvError =
     [(CaughtSafely, True), (CaughtSafely, True)] \<and>
   retirements (cleanupOriginal (StreamRef 0) (cleanupOriginal (StreamRef 0)
        (snd (createFailingStream ''1'' testResults1)))) = [0, 0]"
  by code_simp

section \<open>The results the tests return\<close>







end
